theory Spec2Isabelle
  imports Complex_Main
begin

section \<open>Python values, exceptions and library calls\<close>

text \<open>
  The module \<^verbatim>\<open>src/spark/compile_stations.py\<close> is Python 2. Its functions are embedded
  as HOL functions; every exception the code can raise is a value \<open>Inl e\<close> of a sum type.
  Floating-point numbers are real numbers (every finite double is one); infinities and NaN
  are outside the model. \<open>calc_distance\<close> is the code with its arithmetic evaluated exactly;
  \<open>calc_distance_fl\<close> is the same code with every floating-point operation a parameter, so
  that the rounding of doubles can be put in.
\<close>

datatype error = IndexError | ValueError | TypeError | StopIteration | CsvError

definition on_ok :: "error + 'a \<Rightarrow> ('a \<Rightarrow> error + 'b) \<Rightarrow> error + 'b" where
  "on_ok m f = (case m of Inl e \<Rightarrow> Inl e | Inr x \<Rightarrow> f x)"

text \<open>\<^verbatim>\<open>record[i]\<close> for a literal index \<open>i \<ge> 0\<close>: IndexError past the end of the list.\<close>

definition item :: "'a list \<Rightarrow> nat \<Rightarrow> error + 'a" where
  "item xs i = (if i < length xs then Inr (xs ! i) else Inl IndexError)"

text \<open>\<^verbatim>\<open>sep.join(xs)\<close>.\<close>

fun str_join :: "string \<Rightarrow> string list \<Rightarrow> string" where
  "str_join sep [] = []"
| "str_join sep [x] = x"
| "str_join sep (x # y # ys) = x @ sep @ str_join sep (y # ys)"

text \<open>\<^verbatim>\<open>s.encode('ascii', 'ignore')\<close>: characters outside ASCII are dropped.\<close>

definition encode_ascii_ignore :: "string \<Rightarrow> string" where
  "encode_ascii_ignore s = filter (\<lambda>c. (of_char c :: nat) < 128) s"

text \<open>
  A \<^verbatim>\<open>datetime\<close> value: its calendar fields, and whether it carries a time zone. For an
  aware value the fields are those of the instant in UTC, which is what Python compares.
\<close>

record stamp =
  year :: nat
  month :: nat
  day :: nat
  hour :: nat
  minute :: nat
  second :: nat
  microsecond :: nat

datatype datetime = Naive stamp | Aware stamp

fun fields_less :: "nat list \<Rightarrow> nat list \<Rightarrow> bool" where
  "fields_less (x # xs) (y # ys) = (x < y \<or> (x = y \<and> fields_less xs ys))"
| "fields_less _ _ = False"

definition stamp_less :: "stamp \<Rightarrow> stamp \<Rightarrow> bool" where
  "stamp_less s t =
     fields_less [year s, month s, day s, hour s, minute s, second s, microsecond s]
                 [year t, month t, day t, hour t, minute t, second t, microsecond t]"

text \<open>\<^verbatim>\<open>a < b\<close> on datetimes: comparing a naive with an aware value raises TypeError.\<close>

fun datetime_lt :: "datetime \<Rightarrow> datetime \<Rightarrow> error + bool" where
  "datetime_lt (Naive s) (Naive t) = Inr (stamp_less s t)"
| "datetime_lt (Aware s) (Aware t) = Inr (stamp_less s t)"
| "datetime_lt _ _ = Inl TypeError"

text \<open>The value of \<^verbatim>\<open>parser.parse('1980-01-01')\<close> in dateutil: a naive midnight.\<close>

definition january_1_1980 :: stamp where
  "january_1_1980 = \<lparr>year = 1980, month = 1, day = 1, hour = 0, minute = 0, second = 0,
                       microsecond = 0\<rparr>"

text \<open>
  The library functions the module calls but does not define are parameters of the model:
  \<^item> \<open>csv_first_row\<close>: \<^verbatim>\<open>csv.reader(StringIO(line), delimiter=',').next()\<close>, the first row
    of the line or the exception raised (StopIteration for an empty line);
  \<^item> \<open>float_of\<close>: \<^verbatim>\<open>float(string)\<close>, with \<open>None\<close> for ValueError;
  \<^item> \<open>dateutil_parse\<close>: \<^verbatim>\<open>dateutil.parser.parse(string)\<close>, or the exception raised.
\<close>

record pylib =
  csv_first_row :: "string \<Rightarrow> error + string list"
  float_of :: "string \<Rightarrow> real option"
  dateutil_parse :: "string \<Rightarrow> error + datetime"

section \<open>Record validation\<close>

definition valid_nonzero_float :: "pylib \<Rightarrow> string \<Rightarrow> real option" where
  "valid_nonzero_float lib string =
     (case float_of lib string of
        None \<Rightarrow> None
      | Some number \<Rightarrow> if number \<noteq> 0 then Some number else None)"

text \<open>
  The result is \<open>Inr None\<close> where the code returns \<^verbatim>\<open>None\<close> (the record is rejected),
  \<open>Inr (Some (station_id, latitude, longitude))\<close> where it returns the tuple, and
  \<open>Inl e\<close> where it raises. In \<^verbatim>\<open>if not latitude or not longitude\<close> both \<^verbatim>\<open>None\<close> and
  \<^verbatim>\<open>0.0\<close> are falsy.
\<close>

definition parse_station_record ::
  "pylib \<Rightarrow> string \<Rightarrow> error + (string \<times> real \<times> real) option" where
  "parse_station_record lib station_record =
     on_ok (csv_first_row lib (encode_ascii_ignore station_record)) (\<lambda>record.
     on_ok (item record 0) (\<lambda>state_id.
     if state_id \<in> set [''State Code'', ''CC'', ''80'', ''78'', ''66''] then Inr None
     else
     on_ok (item record 1) (\<lambda>county_id.
     on_ok (item record 2) (\<lambda>site_number.
     let station_id = str_join ''|'' [state_id, county_id, site_number] in
     on_ok (item record 3) (\<lambda>latitude_field.
     let latitude = valid_nonzero_float lib latitude_field in
     on_ok (item record 4) (\<lambda>longitude_field.
     let longitude = valid_nonzero_float lib longitude_field in
     case (latitude, longitude) of
       (Some la, Some lo) \<Rightarrow>
         if la = 0 \<or> lo = 0 then Inr None
         else
         on_ok (item record 5) (\<lambda>datum.
         if datum \<notin> set [''WGS84'', ''NAD83''] then Inr None
         else
         on_ok (item record 10) (\<lambda>closed.
         if closed \<noteq> [] then
           on_ok (dateutil_parse lib closed) (\<lambda>closed_date.
           on_ok (dateutil_parse lib ''1980-01-01'') (\<lambda>history_span.
           on_ok (datetime_lt closed_date history_span) (\<lambda>before.
           if before then Inr None else Inr (Some (station_id, la, lo)))))
         else Inr (Some (station_id, la, lo))))
     | _ \<Rightarrow> Inr None))))))"

text \<open>
  The records on which the function raises nothing: every field that is read before the
  function returns is present, and a non-empty closure date that is reached is parsed by
  dateutil to a datetime that \<^verbatim>\<open><\<close> can compare with \<^verbatim>\<open>parser.parse('1980-01-01')\<close>.
\<close>

definition closure_comparable :: "pylib \<Rightarrow> string \<Rightarrow> bool" where
  "closure_comparable lib closed_field =
     (closed_field = [] \<or>
      \<not> isl (on_ok (dateutil_parse lib closed_field) (\<lambda>closed_date.
             on_ok (dateutil_parse lib ''1980-01-01'') (\<lambda>history_span.
             datetime_lt closed_date history_span))))"

definition reads_succeed :: "pylib \<Rightarrow> string list \<Rightarrow> bool" where
  "reads_succeed lib record =
     (record \<noteq> [] \<and>
      (record ! 0 \<in> set [''State Code'', ''CC'', ''80'', ''78'', ''66''] \<or>
       5 \<le> length record \<and>
       (valid_nonzero_float lib (record ! 3) = None \<or>
        valid_nonzero_float lib (record ! 4) = None \<or>
        6 \<le> length record \<and>
        (record ! 5 \<notin> set [''WGS84'', ''NAD83''] \<or>
         11 \<le> length record \<and> closure_comparable lib (record ! 10)))))"

section \<open>Great-circle distance\<close>

definition radians :: "real \<Rightarrow> real" where
  "radians x = x * (pi / 180)"

text \<open>\<^verbatim>\<open>math.sqrt\<close> and \<^verbatim>\<open>math.asin\<close> raise ValueError outside their domains.\<close>

definition math_sqrt :: "real \<Rightarrow> error + real" where
  "math_sqrt x = (if x < 0 then Inl ValueError else Inr (sqrt x))"

definition math_asin :: "real \<Rightarrow> error + real" where
  "math_asin x = (if x < - 1 \<or> 1 < x then Inl ValueError else Inr (arcsin x))"

definition calc_distance :: "real \<Rightarrow> real \<Rightarrow> real \<Rightarrow> real \<Rightarrow> error + real" where
  "calc_distance lat1 lon1 lat2 lon2 =
     (let R = 3959;
          delta_lat = radians (lat2 - lat1);
          delta_lon = radians (lon2 - lon1);
          lat1r = radians lat1;
          lat2r = radians lat2;
          a = (sin (delta_lat / 2.0))\<^sup>2 + cos lat1r * cos lat2r * (sin (delta_lon / 2.0))\<^sup>2
      in on_ok (math_sqrt a) (\<lambda>root.
         on_ok (math_asin root) (\<lambda>angle.
         let c = 2 * angle in Inr (R * c))))"

text \<open>The intermediate value \<^verbatim>\<open>a\<close> of \<open>calc_distance\<close>, named for the proofs.\<close>

definition haversine_a :: "real \<Rightarrow> real \<Rightarrow> real \<Rightarrow> real \<Rightarrow> real" where
  "haversine_a lat1 lon1 lat2 lon2 =
     (sin (radians (lat2 - lat1) / 2))\<^sup>2
       + cos (radians lat1) * cos (radians lat2) * (sin (radians (lon2 - lon1) / 2))\<^sup>2"

subsection \<open>The same code over floating-point operations\<close>

text \<open>
  The operations on floats that \<^verbatim>\<open>calc_distance\<close> performs: \<^verbatim>\<open>+\<close>, \<^verbatim>\<open>-\<close>, \<^verbatim>\<open>*\<close>, \<^verbatim>\<open>/\<close>,
  \<^verbatim>\<open>** 2\<close>, and \<^verbatim>\<open>radians\<close>, \<^verbatim>\<open>sin\<close>, \<^verbatim>\<open>cos\<close>, \<^verbatim>\<open>sqrt\<close>, \<^verbatim>\<open>asin\<close> of the \<^verbatim>\<open>math\<close>
  module. What each returns is a parameter; that \<^verbatim>\<open>math.sqrt\<close> raises below 0 and
  \<^verbatim>\<open>math.asin\<close> raises outside \<open>[-1, 1]\<close> is part of the embedding.
\<close>

record pymath =
  f_add :: "real \<Rightarrow> real \<Rightarrow> real"
  f_sub :: "real \<Rightarrow> real \<Rightarrow> real"
  f_mul :: "real \<Rightarrow> real \<Rightarrow> real"
  f_div :: "real \<Rightarrow> real \<Rightarrow> real"
  f_square :: "real \<Rightarrow> real"
  m_radians :: "real \<Rightarrow> real"
  m_sin :: "real \<Rightarrow> real"
  m_cos :: "real \<Rightarrow> real"
  m_sqrt :: "real \<Rightarrow> real"
  m_asin :: "real \<Rightarrow> real"

text \<open>The value \<^verbatim>\<open>a\<close> as the code computes it, and the function around it.\<close>

definition haversine_fl :: "pymath \<Rightarrow> real \<Rightarrow> real \<Rightarrow> real \<Rightarrow> real \<Rightarrow> real" where
  "haversine_fl M lat1 lon1 lat2 lon2 =
     (let delta_lat = m_radians M (f_sub M lat2 lat1);
          delta_lon = m_radians M (f_sub M lon2 lon1);
          lat1r = m_radians M lat1;
          lat2r = m_radians M lat2
      in f_add M (f_square M (m_sin M (f_div M delta_lat 2.0)))
           (f_mul M (f_mul M (m_cos M lat1r) (m_cos M lat2r))
              (f_square M (m_sin M (f_div M delta_lon 2.0)))))"

definition calc_distance_fl ::
  "pymath \<Rightarrow> real \<Rightarrow> real \<Rightarrow> real \<Rightarrow> real \<Rightarrow> error + real" where
  "calc_distance_fl M lat1 lon1 lat2 lon2 =
     (let R = 3959;
          a = haversine_fl M lat1 lon1 lat2 lon2
      in on_ok (if a < 0 then Inl ValueError else Inr (m_sqrt M a)) (\<lambda>root.
         on_ok (if root < - 1 \<or> 1 < root then Inl ValueError
                else Inr (m_asin M root)) (\<lambda>angle.
         let c = f_mul M 2 angle in Inr (f_mul M R c))))"

text \<open>Exact arithmetic: with it \<open>calc_distance_fl\<close> is \<open>calc_distance\<close>.\<close>

definition exact_math :: pymath where
  "exact_math = \<lparr>f_add = (+), f_sub = (-), f_mul = (*), f_div = (/), f_square = (\<lambda>x. x\<^sup>2),
     m_radians = radians, m_sin = sin, m_cos = cos, m_sqrt = sqrt, m_asin = arcsin\<rparr>"

text \<open>
  Double arithmetic at one pair of nearly antipodal points. The values are those of
  CPython on IEEE-754 doubles with the C library's \<^verbatim>\<open>sin\<close>, \<^verbatim>\<open>cos\<close>, \<^verbatim>\<open>pow\<close> and
  \<^verbatim>\<open>sqrt\<close>, each written as the exact fraction the double is:
  \<^item> \<open>ex_lat1\<close>: the double nearest to 58.1620943
  \<^item> \<open>ex_lon1\<close>: the double nearest to -134.4618072
  \<^item> \<open>ex_lat2\<close>: the double nearest to -58.1620944
  \<^item> \<open>ex_lon2\<close>: the double nearest to 45.5381919
  \<^item> \<open>ex_lat_diff\<close>: \<^verbatim>\<open>lat2 - lat1\<close> = \<^verbatim>\<open>-116.32418870000001\<close>
  \<^item> \<open>ex_lon_diff\<close>: \<^verbatim>\<open>lon2 - lon1\<close> = \<^verbatim>\<open>179.99999910000003\<close>
  \<^item> \<open>ex_delta_lat\<close>: \<^verbatim>\<open>radians(lat2 - lat1)\<close> = \<^verbatim>\<open>-2.0302400925261828\<close>
  \<^item> \<open>ex_delta_lon\<close>: \<^verbatim>\<open>radians(lon2 - lon1)\<close> = \<^verbatim>\<open>3.14159263788183\<close>
  \<^item> \<open>ex_lat1r\<close>: \<^verbatim>\<open>radians(lat1)\<close> = \<^verbatim>\<open>1.0151200453904266\<close>
  \<^item> \<open>ex_lat2r\<close>: \<^verbatim>\<open>radians(lat2)\<close> = \<^verbatim>\<open>-1.0151200471357558\<close>
  \<^item> \<open>ex_sin_lat\<close>: \<^verbatim>\<open>sin(delta_lat / 2.0)\<close> = \<^verbatim>\<open>-0.8495438844484503\<close>
  \<^item> \<open>ex_sin_lat_sq\<close>: \<^verbatim>\<open>sin(delta_lat / 2.0) ** 2\<close> = \<^verbatim>\<open>0.7217248116037619\<close>
  \<^item> \<open>ex_cos1\<close>: \<^verbatim>\<open>cos(lat1)\<close> = \<^verbatim>\<open>0.527517951522417\<close>
  \<^item> \<open>ex_cos2\<close>: \<^verbatim>\<open>cos(lat2)\<close> = \<^verbatim>\<open>0.5275179500396833\<close>
  \<^item> \<open>ex_cos_prod\<close>: \<^verbatim>\<open>cos(lat1) * cos(lat2)\<close> = \<^verbatim>\<open>0.27827518839623844\<close>
  \<^item> \<open>ex_a\<close>: \<^verbatim>\<open>a\<close> = \<^verbatim>\<open>1.0000000000000004\<close>
  \<^item> \<open>ex_root\<close>: \<^verbatim>\<open>sqrt(a)\<close> = \<^verbatim>\<open>1.0000000000000002\<close>

  The sum \<open>ex_sin_lat_sq + ex_cos_prod\<close> is exactly \<open>1 + 3 / 2 ^ 53\<close>, half way between two
  doubles, and rounds to the even one, \<open>1 + 1 / 2 ^ 51\<close>; its square root rounds to
  \<open>1 + 1 / 2 ^ 52\<close>. The other half-angle sine, \<^verbatim>\<open>sin(delta_lon / 2.0)\<close>, is \<open>1.0\<close>.
\<close>

definition ex_lat1 :: real where
  "ex_lat1 = 8185587069267739 / 2 ^ 47"

definition ex_lon1 :: real where
  "ex_lon1 = - 2365477128130795 / 2 ^ 44"

definition ex_lat2 :: real where
  "ex_lat2 = - 511599192708843 / 2 ^ 43"

definition ex_lon2 :: real where
  "ex_lon2 = 3204465376124471 / 2 ^ 46"

definition ex_lat_diff :: real where
  "ex_lat_diff = - 4092793538152307 / 2 ^ 45"

definition ex_lon_diff :: real where
  "ex_lon_diff = 3166593472161913 / 2 ^ 44"

definition ex_delta_lat :: real where
  "ex_delta_lat = - 4571694262086779 / 2 ^ 51"

definition ex_delta_lon :: real where
  "ex_delta_lon = 1768559429164313 / 2 ^ 49"

definition ex_lat1r :: real where
  "ex_lat1r = 2285847129078323 / 2 ^ 51"

definition ex_lat2r :: real where
  "ex_lat2r = - 2285847133008455 / 2 ^ 51"

definition ex_sin_lat :: real where
  "ex_sin_lat = - 7652011042873849 / 2 ^ 53"

definition ex_sin_lat_sq :: real where
  "ex_sin_lat_sq = 6500719185205487 / 2 ^ 53"

definition ex_cos1 :: real where
  "ex_cos1 = 4751459299815209 / 2 ^ 53"

definition ex_cos2 :: real where
  "ex_cos2 = 4751459286459931 / 2 ^ 53"

definition ex_cos_prod :: real where
  "ex_cos_prod = 626620017383877 / 2 ^ 51"

definition ex_a :: real where
  "ex_a = 2251799813685249 / 2 ^ 51"

definition ex_root :: real where
  "ex_root = 4503599627370497 / 2 ^ 52"

text \<open>
  The operations of \<open>double_math\<close> return these values at these arguments. Division by \<open>2.0\<close> and
  multiplication by \<open>1.0\<close> are exact in binary floating point; at every other argument the
  exact value stands in, which the example never reaches.
\<close>

definition double_sub :: "real \<Rightarrow> real \<Rightarrow> real" where
  "double_sub x y =
     (if x = ex_lat2 \<and> y = ex_lat1 then ex_lat_diff
      else if x = ex_lon2 \<and> y = ex_lon1 then ex_lon_diff
      else x - y)"

definition double_radians :: "real \<Rightarrow> real" where
  "double_radians x =
     (if x = ex_lat_diff then ex_delta_lat
      else if x = ex_lon_diff then ex_delta_lon
      else if x = ex_lat1 then ex_lat1r
      else if x = ex_lat2 then ex_lat2r
      else radians x)"

definition double_sin :: "real \<Rightarrow> real" where
  "double_sin x =
     (if x = ex_delta_lat / 2 then ex_sin_lat
      else if x = ex_delta_lon / 2 then 1
      else sin x)"

definition double_cos :: "real \<Rightarrow> real" where
  "double_cos x =
     (if x = ex_lat1r then ex_cos1
      else if x = ex_lat2r then ex_cos2
      else cos x)"

definition double_square :: "real \<Rightarrow> real" where
  "double_square x = (if x = ex_sin_lat then ex_sin_lat_sq else x\<^sup>2)"

definition double_mul :: "real \<Rightarrow> real \<Rightarrow> real" where
  "double_mul x y = (if x = ex_cos1 \<and> y = ex_cos2 then ex_cos_prod else x * y)"

definition double_add :: "real \<Rightarrow> real \<Rightarrow> real" where
  "double_add x y = (if x = ex_sin_lat_sq \<and> y = ex_cos_prod then ex_a else x + y)"

definition double_sqrt :: "real \<Rightarrow> real" where
  "double_sqrt x = (if x = ex_a then ex_root else sqrt x)"

definition double_math :: pymath where
  "double_math = \<lparr>f_add = double_add, f_sub = double_sub, f_mul = double_mul, f_div = (/),
     f_square = double_square, m_radians = double_radians, m_sin = double_sin,
     m_cos = double_cos, m_sqrt = double_sqrt, m_asin = arcsin\<rparr>"

section \<open>Neighbour assignment\<close>

text \<open>
  Python 2's \<^verbatim>\<open>round(x, n)\<close>: the nearest multiple of \<open>10\<^sup>-\<^sup>n\<close>, a tie going away from
  zero.
\<close>

definition py2_round :: "real \<Rightarrow> nat \<Rightarrow> real" where
  "py2_round x n =
     (if 0 \<le> x then real_of_int \<lfloor>x * 10 ^ n + 1 / 2\<rfloor> / 10 ^ n
      else - (real_of_int \<lfloor>- x * 10 ^ n + 1 / 2\<rfloor> / 10 ^ n))"

text \<open>An entry of the global \<^verbatim>\<open>GRID\<close>: the keys \<^verbatim>\<open>"id"\<close>, \<^verbatim>\<open>"lat"\<close> and \<^verbatim>\<open>"lon"\<close>.\<close>

record grid_point =
  grid_id :: string
  grid_latitude :: real
  grid_longitude :: real

text \<open>The \<^verbatim>\<open>for grid in GRID\<close> loop, with the dictionary built so far as accumulator.\<close>

fun neighbors_loop ::
  "real \<Rightarrow> nat \<Rightarrow> real \<Rightarrow> real \<Rightarrow> grid_point list \<Rightarrow> (string \<rightharpoonup> real)
     \<Rightarrow> error + (string \<rightharpoonup> real)" where
  "neighbors_loop d_cutoff precision station_latitude station_longitude [] adjacent =
     Inr adjacent"
| "neighbors_loop d_cutoff precision station_latitude station_longitude (grid # rest) adjacent =
     on_ok (calc_distance (grid_latitude grid) (grid_longitude grid)
              station_latitude station_longitude) (\<lambda>d.
     neighbors_loop d_cutoff precision station_latitude station_longitude rest
       (if d < d_cutoff then adjacent(grid_id grid \<mapsto> py2_round d precision) else adjacent))"

definition determine_grid_point_neighbors ::
  "grid_point list \<Rightarrow> string \<times> real \<times> real \<Rightarrow> error + string \<times> (string \<rightharpoonup> real)" where
  "determine_grid_point_neighbors GRID rdd =
     (let d_cutoff = 30;
          precision = 1;
          station_id = fst rdd;
          station_latitude = fst (snd rdd);
          station_longitude = snd (snd rdd)
      in on_ok (neighbors_loop d_cutoff precision station_latitude station_longitude
                  GRID Map.empty) (\<lambda>adjacent_grid_points.
         Inr (station_id, adjacent_grid_points)))"

section \<open>A small library instance for running the model\<close>

text \<open>
  To evaluate \<open>parse_station_record\<close> on concrete lines the three library parameters are
  instantiated with simple functions: a comma splitter without quoting, a reader of plain
  decimal numerals (an optional minus sign, digits, an optional fraction) and a reader of
  \<^verbatim>\<open>YYYY-MM-DD\<close> dates. On the lines used below they return what the Python
  libraries return.
\<close>

fun split_commas :: "string \<Rightarrow> string \<Rightarrow> string list" where
  "split_commas cur [] = [rev cur]"
| "split_commas cur (c # cs) =
     (if c = CHR '','' then rev cur # split_commas [] cs else split_commas (c # cur) cs)"

definition plain_csv_first_row :: "string \<Rightarrow> error + string list" where
  "plain_csv_first_row s = (if s = [] then Inl StopIteration else Inr (split_commas [] s))"

definition digit_of :: "char \<Rightarrow> nat option" where
  "digit_of c =
     (if c \<in> set ''0123456789''
      then Some (length (takeWhile (\<lambda>d. d \<noteq> c) ''0123456789''))
      else None)"

fun digits_value :: "nat \<Rightarrow> string \<Rightarrow> nat option" where
  "digits_value acc [] = Some acc"
| "digits_value acc (c # cs) =
     (case digit_of c of None \<Rightarrow> None | Some d \<Rightarrow> digits_value (10 * acc + d) cs)"

definition plain_float :: "string \<Rightarrow> real option" where
  "plain_float s =
     (let negative = (s \<noteq> [] \<and> hd s = CHR ''-'');
          body = (if negative then tl s else s);
          whole = takeWhile (\<lambda>c. c \<noteq> CHR ''.'') body;
          frac = drop (Suc (length whole)) body
      in if whole = [] then None
         else case (digits_value 0 whole, digits_value 0 frac) of
                (Some i, Some f) \<Rightarrow>
                  Some ((if negative then - 1 else 1) * (real i + real f / 10 ^ length frac))
              | _ \<Rightarrow> None)"

definition plain_date :: "string \<Rightarrow> error + datetime" where
  "plain_date s =
     (if length s = 10 \<and> s ! 4 = CHR ''-'' \<and> s ! 7 = CHR ''-'' then
        case (digits_value 0 (take 4 s), digits_value 0 (take 2 (drop 5 s)),
              digits_value 0 (drop 8 s)) of
          (Some y, Some m, Some d) \<Rightarrow>
            if 1 \<le> y \<and> 1 \<le> m \<and> m \<le> 12 \<and> 1 \<le> d \<and> d \<le> 31
            then Inr (Naive \<lparr>year = y, month = m, day = d, hour = 0, minute = 0,
                             second = 0, microsecond = 0\<rparr>)
            else Inl ValueError
        | _ \<Rightarrow> Inl ValueError
      else Inl ValueError)"

definition plain_lib :: pylib where
  "plain_lib = \<lparr>csv_first_row = plain_csv_first_row, float_of = plain_float,
                dateutil_parse = plain_date\<rparr>"

section \<open>Properties of the distance\<close>

lemma calc_distance_unfold:
  "calc_distance lat1 lon1 lat2 lon2 =
     on_ok (math_sqrt (haversine_a lat1 lon1 lat2 lon2)) (\<lambda>root.
     on_ok (math_asin root) (\<lambda>angle. Inr (3959 * (2 * angle))))"
  by (simp add: calc_distance_def haversine_a_def Let_def)

lemma sin_half_squared: "(sin (x / 2))\<^sup>2 = (1 - cos x) / 2" for x :: real
  using cos_double_sin[of "x / 2"] by simp

lemma unit_dot_bound:
  fixes s1 c1 s2 c2 k :: real
  assumes u1: "s1\<^sup>2 + c1\<^sup>2 = 1" and u2: "s2\<^sup>2 + c2\<^sup>2 = 1" and k: "\<bar>k\<bar> \<le> 1"
  shows "\<bar>s1 * s2 + c1 * c2 * k\<bar> \<le> 1"
proof -
  have a: "\<bar>s1 * s2\<bar> \<le> (s1\<^sup>2 + s2\<^sup>2) / 2"
    using sum_squares_bound[of s1 s2] sum_squares_bound[of "- s1" s2] by (simp add: abs_le_iff)
  have b: "\<bar>c1 * c2\<bar> \<le> (c1\<^sup>2 + c2\<^sup>2) / 2"
    using sum_squares_bound[of c1 c2] sum_squares_bound[of "- c1" c2] by (simp add: abs_le_iff)
  have "\<bar>c1 * c2 * k\<bar> = \<bar>c1 * c2\<bar> * \<bar>k\<bar>" by (simp add: abs_mult)
  also have "\<dots> \<le> \<bar>c1 * c2\<bar> * 1" using k by (intro mult_left_mono) simp_all
  finally have c: "\<bar>c1 * c2 * k\<bar> \<le> (c1\<^sup>2 + c2\<^sup>2) / 2" using b by simp
  have "\<bar>s1 * s2 + c1 * c2 * k\<bar> \<le> \<bar>s1 * s2\<bar> + \<bar>c1 * c2 * k\<bar>" by (rule abs_triangle_ineq)
  also have "\<dots> \<le> (s1\<^sup>2 + s2\<^sup>2) / 2 + (c1\<^sup>2 + c2\<^sup>2) / 2" using a c by linarith
  also have "\<dots> = 1" using u1 u2 by (simp add: field_simps)
  finally show ?thesis .
qed

lemma haversine_a_dot:
  "haversine_a lat1 lon1 lat2 lon2 =
     (1 - (sin (radians lat1) * sin (radians lat2)
           + cos (radians lat1) * cos (radians lat2) * cos (radians (lon2 - lon1)))) / 2"
proof -
  have r: "radians (lat2 - lat1) = radians lat2 - radians lat1"
    by (simp only: radians_def left_diff_distrib)
  show ?thesis
    unfolding haversine_a_def sin_half_squared r cos_diff
    by (simp add: field_simps)
qed

lemma haversine_a_range: "0 \<le> haversine_a lat1 lon1 lat2 lon2 \<and> haversine_a lat1 lon1 lat2 lon2 \<le> 1"
proof -
  have "\<bar>sin (radians lat1) * sin (radians lat2)
           + cos (radians lat1) * cos (radians lat2) * cos (radians (lon2 - lon1))\<bar> \<le> 1"
    by (rule unit_dot_bound) simp_all
  then show ?thesis unfolding haversine_a_dot by (simp add: abs_le_iff)
qed

lemma neg_one_le_sqrt: "0 \<le> x \<Longrightarrow> - 1 \<le> sqrt x"
  using real_sqrt_ge_zero[of x] by linarith

lemma math_asin_sqrt:
  assumes "0 \<le> x" and "x \<le> 1"
  shows "math_asin (sqrt x) = Inr (arcsin (sqrt x))"
proof -
  have "- 1 \<le> sqrt x" using assms(1) by (rule neg_one_le_sqrt)
  moreover have "sqrt x \<le> 1" using assms(2) by simp
  ultimately have "\<not> (sqrt x < - 1 \<or> 1 < sqrt x)" by linarith
  then show ?thesis unfolding math_asin_def by (simp only: if_False)
qed

lemma calc_distance_returns:
  "calc_distance lat1 lon1 lat2 lon2 =
     Inr (3959 * (2 * arcsin (sqrt (haversine_a lat1 lon1 lat2 lon2))))"
proof -
  have a: "0 \<le> haversine_a lat1 lon1 lat2 lon2" "haversine_a lat1 lon1 lat2 lon2 \<le> 1"
    using haversine_a_range by simp_all
  have "math_sqrt (haversine_a lat1 lon1 lat2 lon2) = Inr (sqrt (haversine_a lat1 lon1 lat2 lon2))"
    using a(1) by (simp add: math_sqrt_def)
  then show ?thesis
    by (simp add: calc_distance_unfold on_ok_def math_asin_sqrt[OF a])
qed

text \<open>
  Claim C6: the distance is symmetric, the distance from \<open>a\<close> to \<open>b\<close> is the distance from
  \<open>b\<close> to \<open>a\<close>, for all coordinates.
\<close>

theorem calc_distance_symmetric:
  "calc_distance lat1 lon1 lat2 lon2 = calc_distance lat2 lon2 lat1 lon1"
proof -
  have "radians (lat1 - lat2) = - radians (lat2 - lat1)"
    and "radians (lon1 - lon2) = - radians (lon2 - lon1)"
    by (simp_all only: radians_def minus_mult_left minus_diff_eq)
  then have "haversine_a lat1 lon1 lat2 lon2 = haversine_a lat2 lon2 lat1 lon1"
    by (simp add: haversine_a_def mult.commute)
  then show ?thesis by (simp add: calc_distance_unfold)
qed

text \<open>
  Claim C7: the distance from a point to itself is exactly \<open>0\<close>, and the call returns.
\<close>

theorem calc_distance_identity: "calc_distance lat lon lat lon = Inr 0"
  by (simp add: calc_distance_def radians_def math_sqrt_def math_asin_def on_ok_def)

text \<open>
  Claim C10: whenever \<open>calc_distance\<close> returns a value, the value is nonnegative and at
  most \<open>pi * 3959\<close> miles, because \<open>2 * asin (sqrt a)\<close> lies between \<open>0\<close> and \<open>pi\<close>.
\<close>

theorem calc_distance_bounds:
  assumes "calc_distance lat1 lon1 lat2 lon2 = Inr d"
  shows "0 \<le> d \<and> d \<le> pi * 3959"
proof -
  let ?a = "haversine_a lat1 lon1 lat2 lon2"
  from assms have a0: "0 \<le> ?a" and s1: "sqrt ?a \<le> 1" and d: "d = 3959 * (2 * arcsin (sqrt ?a))"
    by (auto simp: calc_distance_unfold math_sqrt_def math_asin_def on_ok_def split: if_splits)
  have "0 \<le> sqrt ?a" using a0 by simp
  then have "0 \<le> arcsin (sqrt ?a)" using s1 by (simp add: arcsin_nonneg)
  moreover have "arcsin (sqrt ?a) \<le> pi / 2" using s1 \<open>0 \<le> sqrt ?a\<close> by (intro arcsin_ubound) (simp_all add: neg_one_le_sqrt)
  ultimately show ?thesis unfolding d by simp
qed

theorem calc_distance_bounds_witness:
  "calc_distance 40 (- 75) 40 (- 75) = Inr 0 \<and> (0::real) \<le> 0 \<and> 0 \<le> pi * 3959"
  using calc_distance_bounds[of 40 "- 75" 40 "- 75" 0]
  by (simp add: calc_distance_def radians_def math_sqrt_def math_asin_def on_ok_def)


subsection \<open>The domain of \<open>asin\<close>\<close>

lemma calc_distance_fl_exact: "calc_distance_fl exact_math = calc_distance"
  by (intro ext) (simp add: calc_distance_fl_def haversine_fl_def calc_distance_def exact_math_def
      math_sqrt_def math_asin_def Let_def cong: if_cong)

text \<open>The two roundings that decide the example.\<close>

lemma ex_sum_is_tie: "ex_sin_lat_sq + ex_cos_prod = 1 + 3 / 2 ^ 53"
  and ex_a_above_one: "ex_a = 1 + 1 / 2 ^ 51"
  and ex_root_above_one: "ex_root = 1 + 1 / 2 ^ 52"
  and ex_root_squared: "ex_root\<^sup>2 = ex_a + 1 / 2 ^ 104"
  by (simp_all add: ex_sin_lat_sq_def ex_cos_prod_def ex_a_def ex_root_def power2_eq_square)

lemma double_haversine:
  "haversine_fl double_math ex_lat1 ex_lon1 ex_lat2 ex_lon2 = ex_a"
proof -
  have sub: "double_sub ex_lat2 ex_lat1 = ex_lat_diff" "double_sub ex_lon2 ex_lon1 = ex_lon_diff"
    by (simp_all add: double_sub_def ex_lat1_def ex_lat2_def ex_lon1_def ex_lon2_def)
  have rad: "double_radians ex_lat_diff = ex_delta_lat" "double_radians ex_lon_diff = ex_delta_lon"
    "double_radians ex_lat1 = ex_lat1r" "double_radians ex_lat2 = ex_lat2r"
    by (simp_all add: double_radians_def ex_lat_diff_def ex_lon_diff_def ex_lat1_def ex_lat2_def)
  have sn: "double_sin (ex_delta_lat / 2) = ex_sin_lat" "double_sin (ex_delta_lon / 2) = 1"
    by (simp_all add: double_sin_def ex_delta_lat_def ex_delta_lon_def)
  have cs: "double_cos ex_lat1r = ex_cos1" "double_cos ex_lat2r = ex_cos2"
    by (simp_all add: double_cos_def ex_lat1r_def ex_lat2r_def)
  have sq: "double_square ex_sin_lat = ex_sin_lat_sq" "double_square 1 = 1"
    by (simp_all add: double_square_def ex_sin_lat_def)
  have ml: "double_mul ex_cos1 ex_cos2 = ex_cos_prod" "double_mul ex_cos_prod 1 = ex_cos_prod"
    by (simp_all add: double_mul_def ex_cos1_def ex_cos_prod_def)
  have ad: "double_add ex_sin_lat_sq ex_cos_prod = ex_a"
    by (simp add: double_add_def)
  show ?thesis
    by (simp add: haversine_fl_def double_math_def sub rad sn cs sq ml ad)
qed

text \<open>
  Claim C3, as stated, fails: the code passes \<^verbatim>\<open>sqrt(a)\<close> to \<^verbatim>\<open>asin\<close> as it is. For the
  nearly antipodal points (58.1620943, -134.4618072) and (-58.1620944, 45.5381919) double
  arithmetic gives \<^verbatim>\<open>a = 1.0000000000000004\<close> and \<^verbatim>\<open>sqrt(a) = 1.0000000000000002\<close>, and
  \<^verbatim>\<open>asin\<close> raises ValueError.
\<close>

theorem calc_distance_domain_counterexample:
  "calc_distance_fl double_math ex_lat1 ex_lon1 ex_lat2 ex_lon2 = Inl ValueError"
proof -
  have rt: "m_sqrt double_math ex_a = ex_root"
    by (simp add: double_math_def double_sqrt_def)
  have "\<not> ex_a < 0" by (simp add: ex_a_above_one)
  moreover have "1 < ex_root" by (simp add: ex_root_above_one)
  ultimately show ?thesis
    by (simp add: calc_distance_fl_def double_haversine rt on_ok_def)
qed

text \<open>
  Claim C3, amended: the argument of \<^verbatim>\<open>asin\<close> is not clamped; the function returns a value
  exactly when the value \<^verbatim>\<open>a\<close> it computes is not negative and the square root it computes
  of \<^verbatim>\<open>a\<close> lies in \<open>[-1, 1]\<close>, and raises ValueError otherwise.
\<close>

theorem calc_distance_returns_iff:
  "(\<exists>d. calc_distance_fl M lat1 lon1 lat2 lon2 = Inr d) \<longleftrightarrow>
   (0 \<le> haversine_fl M lat1 lon1 lat2 lon2 \<and>
    - 1 \<le> m_sqrt M (haversine_fl M lat1 lon1 lat2 lon2) \<and>
    m_sqrt M (haversine_fl M lat1 lon1 lat2 lon2) \<le> 1)"
  by (auto simp: calc_distance_fl_def on_ok_def Let_def split: if_splits)

theorem calc_distance_returns_iff_witness:
  "0 \<le> haversine_fl exact_math 40 (- 75) 40 (- 75) \<and>
   - 1 \<le> m_sqrt exact_math (haversine_fl exact_math 40 (- 75) 40 (- 75)) \<and>
   m_sqrt exact_math (haversine_fl exact_math 40 (- 75) 40 (- 75)) \<le> 1 \<and>
   (\<exists>d. calc_distance_fl exact_math 40 (- 75) 40 (- 75) = Inr d)"
proof -
  have a: "haversine_fl exact_math 40 (- 75) 40 (- 75) = 0"
    by (simp add: haversine_fl_def exact_math_def radians_def)
  have r: "m_sqrt exact_math 0 = 0"
    by (simp add: exact_math_def)
  have "\<exists>d. calc_distance_fl exact_math 40 (- 75) 40 (- 75) = Inr d"
    using calc_distance_returns_iff[of exact_math 40 "- 75" 40 "- 75"] a r by simp
  with a r show ?thesis by simp
qed

section \<open>Properties of the neighbour assignment\<close>

lemma py2_round_below_cutoff:
  assumes "d < 30"
  shows "py2_round d 1 \<le> 30"
proof (cases "0 \<le> d")
  case True
  have "d * 10 + 1 / 2 < 301" using assms by simp
  then have "\<lfloor>d * 10 + 1 / 2\<rfloor> < 301" by (simp add: floor_less_iff)
  then have "\<lfloor>d * 10 + 1 / 2\<rfloor> \<le> 300" by simp
  then have "real_of_int \<lfloor>d * 10 + 1 / 2\<rfloor> \<le> 300" by linarith
  then show ?thesis using True by (simp add: py2_round_def)
next
  case False
  then have r: "py2_round d 1 = - (real_of_int \<lfloor>- d * 10 + 1 / 2\<rfloor> / 10)"
    by (simp add: py2_round_def)
  from False have "0 \<le> - d * 10 + 1 / 2" by simp
  then have "0 \<le> \<lfloor>- d * 10 + 1 / 2\<rfloor>" by (simp only: zero_le_floor)
  then have "0 \<le> real_of_int \<lfloor>- d * 10 + 1 / 2\<rfloor>" by simp
  with r show ?thesis by linarith
qed

lemma neighbors_loop_entries:
  assumes "neighbors_loop c p slat slon gs acc = Inr m" and "m g = Some v"
  shows "acc g = Some v \<or>
         (\<exists>grid \<in> set gs. \<exists>d. grid_id grid = g \<and>
            calc_distance (grid_latitude grid) (grid_longitude grid) slat slon = Inr d \<and>
            d < c \<and> v = py2_round d p)"
  using assms
proof (induction gs arbitrary: acc)
  case Nil
  then show ?case by simp
next
  case (Cons grid rest)
  from Cons.prems(1) obtain d where
    d: "calc_distance (grid_latitude grid) (grid_longitude grid) slat slon = Inr d"
    and rec: "neighbors_loop c p slat slon rest
       (if d < c then acc(grid_id grid \<mapsto> py2_round d p) else acc) = Inr m"
    by (auto simp: on_ok_def split: sum.splits)
  from Cons.IH[OF rec Cons.prems(2)] show ?case
  proof
    assume a: "(if d < c then acc(grid_id grid \<mapsto> py2_round d p) else acc) g = Some v"
    show ?thesis
    proof (cases "d < c \<and> grid_id grid = g")
      case True
      with a have "v = py2_round d p" by simp
      with True d show ?thesis by auto
    next
      case False
      with a have "acc g = Some v" by (auto split: if_splits)
      then show ?thesis by simp
    qed
  next
    assume "\<exists>grid \<in> set rest. \<exists>d. grid_id grid = g \<and>
            calc_distance (grid_latitude grid) (grid_longitude grid) slat slon = Inr d \<and>
            d < c \<and> v = py2_round d p"
    then show ?thesis by auto
  qed
qed

subsection \<open>Bounds on \<open>pi\<close> for evaluating a distance\<close>

lemma sin_sum7:
  fixes x :: real
  shows "(\<Sum>m<7. sin_coeff m * x ^ m) = x - x^3/6 + x^5/120"
proof -
  have s: "{..<7::nat} = {0,1,2,3,4,5,6}" by auto
  have f3: "fact 3 = (6::real)" and f5: "fact 5 = (120::real)"
    by (simp_all add: fact_numeral)
  show ?thesis unfolding s
    by (simp add: sin_coeff_def f3 f5)
qed

lemma sin_poly7:
  fixes x :: real
  assumes "0 \<le> x"
  shows "x - x^3/6 + x^5/120 - x^7/5040 \<le> sin x" and "sin x \<le> x - x^3/6 + x^5/120 + x^7/5040"
proof -
  have f7: "fact 7 = (5040::real)" by (simp add: fact_numeral)
  have "\<bar>sin x - (\<Sum>m<7. sin_coeff m * x ^ m)\<bar> \<le> inverse (fact 7) * \<bar>x\<bar> ^ 7"
    by (rule Maclaurin_sin_bound)
  then have "\<bar>sin x - (x - x^3/6 + x^5/120)\<bar> \<le> inverse 5040 * \<bar>x\<bar> ^ 7"
    by (simp only: sin_sum7 f7)
  moreover have "inverse (5040::real) * \<bar>x\<bar> ^ 7 = x^7 / 5040"
    using assms by simp
  ultimately have b: "\<bar>sin x - (x - x^3/6 + x^5/120)\<bar> \<le> x^7 / 5040"
    by (simp only:)
  from b show "x - x^3/6 + x^5/120 - x^7/5040 \<le> sin x" by linarith
  from b show "sin x \<le> x - x^3/6 + x^5/120 + x^7/5040" by linarith
qed

lemma pi_lower: "157/50 < pi"
proof -
  have "sin (157/300 :: real) \<le> 157/300 - (157/300)^3/6 + (157/300)^5/120 + (157/300)^7/5040"
    by (rule sin_poly7) simp
  also have "\<dots> < 1/2" by (simp add: power_divide)
  finally have "sin (157/300 :: real) < sin (pi/6)" by (simp add: sin_30)
  moreover have "(157/300::real) \<le> pi/2" "-(pi/2) \<le> (157/300::real)" using pi_ge_two by simp_all
  moreover have "pi/6 \<le> pi/2" "-(pi/2) \<le> pi/6" by simp_all
  ultimately have "157/300 < pi/6" using sin_mono_less_eq[of "157/300" "pi/6"] by simp
  then show ?thesis by simp
qed

lemma pi_upper: "pi < 22/7"
proof -
  have "(1/2::real) < 11/21 - (11/21)^3/6 + (11/21)^5/120 - (11/21)^7/5040"
    by (simp add: power_divide)
  also have "\<dots> \<le> sin (11/21 :: real)"
    by (rule sin_poly7) simp
  finally have "sin (pi/6) < sin (11/21 :: real)" by (simp add: sin_30)
  moreover have "(11/21::real) \<le> pi/2" "-(pi/2) \<le> (11/21::real)" using pi_ge_two by simp_all
  moreover have "pi/6 \<le> pi/2" "-(pi/2) \<le> pi/6" by simp_all
  ultimately have "pi/6 < 11/21" using sin_mono_less_eq[of "pi/6" "11/21"] by simp
  then show ?thesis by simp
qed

lemma py2_round_thirty:
  assumes "29.95 \<le> d" and "d < 30"
  shows "py2_round d 1 = 30"
proof -
  have "real_of_int 300 \<le> d * 10 + 1 / 2" using assms(1) by simp
  moreover have "d * 10 + 1 / 2 < real_of_int 300 + 1" using assms(2) by simp
  ultimately have "\<lfloor>d * 10 + 1 / 2\<rfloor> = 300" by (rule floor_unique)
  moreover have "0 \<le> d" using assms(1) by simp
  ultimately show ?thesis by (simp add: py2_round_def)
qed

lemma boundary_distance:
  "\<exists>d. calc_distance 40 (- 75) 40.4338 (- 75) = Inr d \<and> 29.95 \<le> d \<and> d < 30"
proof -
  define y :: real where "y = 0.4338 * (pi / 180) / 2"
  have y0: "0 \<le> y" by (simp add: y_def)
  have y1: "y \<le> pi / 2" using pi_gt_zero by (simp add: y_def)
  have "y \<le> pi" using y1 pi_ge_zero by linarith
  with y0 have s: "0 \<le> sin y" by (rule sin_ge_zero)
  have a: "haversine_a 40 (- 75) 40.4338 (- 75) = (sin y)\<^sup>2"
    by (simp add: haversine_a_def radians_def y_def)
  have r: "sqrt ((sin y)\<^sup>2) = sin y" using s by simp
  have t: "arcsin (sin y) = y" using y0 y1 by (intro arcsin_sin) simp_all
  have d: "calc_distance 40 (- 75) 40.4338 (- 75) = Inr (3959 * (2 * y))"
    by (simp only: calc_distance_returns a r t)
  have "29.95 \<le> 3959 * (2 * y)" using pi_lower by (simp add: y_def)
  moreover have "3959 * (2 * y) < 30" using pi_upper by (simp add: y_def)
  ultimately show ?thesis using d by blast
qed


text \<open>
  A station 0.4338 degrees of latitude north of a grid point, on the same meridian, is
  between 29.95 and 30 miles away: the grid point passes the test \<^verbatim>\<open>d < d_cutoff\<close> and
  the distance stored for it is \<^verbatim>\<open>round(d, 1)\<close>, which is 30.0.
\<close>

lemma boundary_neighbors:
  "determine_grid_point_neighbors
     [\<lparr>grid_id = ''g1'', grid_latitude = 40, grid_longitude = - 75\<rparr>]
     (''42|101|0004'', 40.4338, - 75)
   = Inr (''42|101|0004'', [''g1'' \<mapsto> 30])"
proof -
  from boundary_distance obtain d where
    d: "calc_distance 40 (- 75) 40.4338 (- 75) = Inr d" "29.95 \<le> d" "d < 30" by blast
  have "py2_round d (Suc 0) = 30" using py2_round_thirty[OF d(2,3)] by simp
  then show ?thesis
    using d(1,3) by (simp add: determine_grid_point_neighbors_def on_ok_def)
qed

text \<open>
  Claim C1, as stated, fails: the mapping returned for the station above holds the
  distance 30.0 for the grid point \<open>g1\<close>, which is not strictly below the cutoff.
\<close>

theorem neighbors_cutoff_counterexample:
  "determine_grid_point_neighbors
     [\<lparr>grid_id = ''g1'', grid_latitude = 40, grid_longitude = - 75\<rparr>]
     (''42|101|0004'', 40.4338, - 75)
   = Inr (''42|101|0004'', [''g1'' \<mapsto> 30]) \<and> \<not> (30::real) < 30"
  using boundary_neighbors by simp

text \<open>
  Claim C1, amended: whenever the function returns, every distance stored in the returned
  mapping is the rounding to one decimal place of the distance of a grid point with that
  id which is strictly below 30 miles, and is therefore at most 30.0.
\<close>

theorem neighbors_rounded_from_below_cutoff:
  assumes "determine_grid_point_neighbors GRID (station_id, station_latitude, station_longitude)
             = Inr (sid, adjacent)"
    and "adjacent g = Some v"
  shows "v \<le> 30 \<and>
         (\<exists>grid \<in> set GRID. \<exists>d. grid_id grid = g \<and>
            calc_distance (grid_latitude grid) (grid_longitude grid)
              station_latitude station_longitude = Inr d \<and>
            d < 30 \<and> v = py2_round d 1)"
proof -
  from assms(1) have loop:
    "neighbors_loop 30 1 station_latitude station_longitude GRID Map.empty = Inr adjacent"
    by (auto simp: determine_grid_point_neighbors_def on_ok_def Let_def split: sum.splits)
  from neighbors_loop_entries[OF loop assms(2)] obtain grid d where
    g: "grid \<in> set GRID" "grid_id grid = g"
       "calc_distance (grid_latitude grid) (grid_longitude grid)
              station_latitude station_longitude = Inr d" "d < 30" "v = py2_round d 1"
    by auto
  have "v \<le> 30" using py2_round_below_cutoff[OF g(4)] g(5) by simp
  with g show ?thesis by blast
qed

theorem neighbors_rounded_from_below_cutoff_witness:
  "determine_grid_point_neighbors
     [\<lparr>grid_id = ''g1'', grid_latitude = 40, grid_longitude = - 75\<rparr>]
     (''42|101|0004'', 40.4338, - 75)
   = Inr (''42|101|0004'', [''g1'' \<mapsto> 30]) \<and>
   [''g1'' \<mapsto> 30::real] ''g1'' = Some 30 \<and>
   (30::real) \<le> 30 \<and>
   (\<exists>d. calc_distance 40 (- 75) 40.4338 (- 75) = Inr d \<and> d < 30 \<and> 30 = py2_round d 1)"
  using neighbors_rounded_from_below_cutoff[OF boundary_neighbors, of "''g1''" 30]
    boundary_neighbors
  by simp

section \<open>Properties of the record validation\<close>


subsection \<open>The model on concrete lines\<close>

lemma plain_float_examples:
  "plain_float ''33.5'' = Some 33.5" "plain_float ''-86.8'' = Some (- 86.8)"
  "plain_float ''0'' = Some 0" "plain_float ''abc'' = None"
  by (simp_all add: plain_float_def digit_of_def)

lemma plain_date_examples:
  "plain_date ''1980-01-01'' = Inr (Naive january_1_1980)"
  "plain_date ''1975-06-01'' = Inr (Naive \<lparr>year = 1975, month = 6, day = 1, hour = 0,
      minute = 0, second = 0, microsecond = 0\<rparr>)"
  "plain_date ''1985-06-01'' = Inr (Naive \<lparr>year = 1985, month = 6, day = 1, hour = 0,
      minute = 0, second = 0, microsecond = 0\<rparr>)"
  "plain_date ''unknown'' = Inl ValueError"
  by (simp_all add: plain_date_def digit_of_def january_1_1980_def)

lemma plain_rows:
  "csv_first_row plain_lib (encode_ascii_ignore ''CC,Mexico,0001'') = Inr [''CC'', ''Mexico'', ''0001'']"
  "csv_first_row plain_lib (encode_ascii_ignore ''01,073,0023,0,-86.8'')
     = Inr [''01'', ''073'', ''0023'', ''0'', ''-86.8'']"
  "csv_first_row plain_lib (encode_ascii_ignore ''01,073,0023,33.5,-86.8,WGS84,,,,,'')
     = Inr [''01'', ''073'', ''0023'', ''33.5'', ''-86.8'', ''WGS84'', [], [], [], [], []]"
  "csv_first_row plain_lib (encode_ascii_ignore ''01,073,0023,33.5,-86.8,NAD83,,,,,1975-06-01'')
     = Inr [''01'', ''073'', ''0023'', ''33.5'', ''-86.8'', ''NAD83'', [], [], [], [], ''1975-06-01'']"
  "csv_first_row plain_lib (encode_ascii_ignore ''01,073,0023,33.5,-86.8,NAD83,,,,,1985-06-01'')
     = Inr [''01'', ''073'', ''0023'', ''33.5'', ''-86.8'', ''NAD83'', [], [], [], [], ''1985-06-01'']"
  "csv_first_row plain_lib (encode_ascii_ignore ''01,073,0023,abc,-86.8,WGS84,,,,,'')
     = Inr [''01'', ''073'', ''0023'', ''abc'', ''-86.8'', ''WGS84'', [], [], [], [], []]"
  "csv_first_row plain_lib (encode_ascii_ignore ''01,073'') = Inr [''01'', ''073'']"
  by (simp_all add: plain_lib_def plain_csv_first_row_def encode_ascii_ignore_def)


lemma plain_lib_fields:
  "float_of plain_lib = plain_float" "dateutil_parse plain_lib = plain_date"
  by (simp_all add: plain_lib_def)


lemma valid_nonzero_float_nonzero: "valid_nonzero_float lib s = Some x \<Longrightarrow> x \<noteq> 0"
  by (auto simp: valid_nonzero_float_def split: option.splits if_splits)

subsection \<open>The claims\<close>

text \<open>
  Claim C8: a record whose first field is the header label \<open>State Code\<close> or one of the codes
  \<open>CC\<close>, \<open>80\<close>, \<open>78\<close>, \<open>66\<close> is rejected, whatever its other fields are.
\<close>

theorem excluded_region_rejected:
  assumes "csv_first_row lib (encode_ascii_ignore station_record) = Inr record"
    and "record \<noteq> []"
    and "hd record \<in> {''State Code'', ''CC'', ''80'', ''78'', ''66''}"
  shows "parse_station_record lib station_record = Inr None"
proof -
  from assms(2) have "item record 0 = Inr (hd record)"
    by (cases "record") (simp_all add: item_def)
  with assms(1,3) show ?thesis
    by (simp add: parse_station_record_def on_ok_def)
qed

theorem excluded_region_rejected_witness:
  "csv_first_row plain_lib (encode_ascii_ignore ''CC,Mexico,0001'')
     = Inr [''CC'', ''Mexico'', ''0001''] \<and>
   [''CC'', ''Mexico'', ''0001''] \<noteq> [] \<and>
   hd [''CC'', ''Mexico'', ''0001''] \<in> {''State Code'', ''CC'', ''80'', ''78'', ''66''} \<and>
   parse_station_record plain_lib ''CC,Mexico,0001'' = Inr None"
  using excluded_region_rejected[of plain_lib "''CC,Mexico,0001''" "[''CC'', ''Mexico'', ''0001'']"]
    plain_rows(1)
  by simp

text \<open>
  Claim C9: a record with a latitude field (field 4) and a longitude field (field 5) is
  rejected whenever one of the two fails to parse as a float or parses to zero; a
  latitude field \<open>0\<close> rejects the record whatever the longitude is.
\<close>

theorem bad_coordinate_rejected:
  assumes "csv_first_row lib (encode_ascii_ignore station_record) = Inr record"
    and "5 \<le> length record"
    and "float_of lib (record ! 3) = None \<or> float_of lib (record ! 3) = Some 0 \<or>
         float_of lib (record ! 4) = None \<or> float_of lib (record ! 4) = Some 0"
  shows "parse_station_record lib station_record = Inr None"
proof -
  from assms(2) have items: "item record 0 = Inr (record ! 0)" "item record 1 = Inr (record ! 1)"
    "item record 2 = Inr (record ! 2)" "item record 3 = Inr (record ! 3)"
    "item record 4 = Inr (record ! 4)"
    by (auto simp: item_def)
  from assms(3) have "valid_nonzero_float lib (record ! 3) = None \<or>
      valid_nonzero_float lib (record ! 4) = None"
    by (auto simp: valid_nonzero_float_def)
  then show ?thesis
    using assms(1) items
    by (auto simp: parse_station_record_def on_ok_def Let_def split: option.splits)
qed

theorem bad_coordinate_rejected_witness:
  "csv_first_row plain_lib (encode_ascii_ignore ''01,073,0023,0,-86.8'')
     = Inr [''01'', ''073'', ''0023'', ''0'', ''-86.8''] \<and>
   5 \<le> length [''01'', ''073'', ''0023'', ''0'', ''-86.8''] \<and>
   float_of plain_lib ([''01'', ''073'', ''0023'', ''0'', ''-86.8''] ! 3) = Some 0 \<and>
   parse_station_record plain_lib ''01,073,0023,0,-86.8'' = Inr None"
proof -
  have f: "float_of plain_lib ([''01'', ''073'', ''0023'', ''0'', ''-86.8''] ! 3) = Some 0"
    by (simp add: plain_lib_def plain_float_examples)
  have "parse_station_record plain_lib ''01,073,0023,0,-86.8'' = Inr None"
    using f by (intro bad_coordinate_rejected[OF plain_rows(2)]) simp_all
  with f plain_rows(2) show ?thesis by simp
qed



text \<open>
  Claim C5: for a record whose other fields are valid and whose closure-date field
  (field 11) is non-empty and parses to a date, the record is rejected if that date is
  strictly before January 1, 1980 and accepted otherwise; \<open>1975-06-01\<close> is rejected and
  \<open>1985-06-01\<close> accepted.
\<close>

theorem closure_date_filter:
  assumes "csv_first_row lib (encode_ascii_ignore station_record) = Inr record"
    and "11 \<le> length record"
    and "record ! 0 \<notin> {''State Code'', ''CC'', ''80'', ''78'', ''66''}"
    and "float_of lib (record ! 3) = Some la" and "la \<noteq> 0"
    and "float_of lib (record ! 4) = Some lo" and "lo \<noteq> 0"
    and "record ! 5 \<in> {''WGS84'', ''NAD83''}"
    and "record ! 10 \<noteq> []"
    and "dateutil_parse lib (record ! 10) = Inr (Naive closed_date)"
    and "dateutil_parse lib ''1980-01-01'' = Inr (Naive january_1_1980)"
  shows "parse_station_record lib station_record =
           (if stamp_less closed_date january_1_1980 then Inr None
            else Inr (Some (record ! 0 @ ''|'' @ record ! 1 @ ''|'' @ record ! 2, la, lo)))"
proof -
  from assms(2) have items: "item record 0 = Inr (record ! 0)" "item record 1 = Inr (record ! 1)"
    "item record 2 = Inr (record ! 2)" "item record 3 = Inr (record ! 3)"
    "item record 4 = Inr (record ! 4)" "item record 5 = Inr (record ! 5)"
    "item record 10 = Inr (record ! 10)"
    by (auto simp: item_def)
  have v: "valid_nonzero_float lib (record ! 3) = Some la"
    "valid_nonzero_float lib (record ! 4) = Some lo"
    using assms(4-7) by (simp_all add: valid_nonzero_float_def)
  show ?thesis
    using assms(1,3,5,7,8,9,10,11) items v
    by (auto simp: parse_station_record_def on_ok_def Let_def)
qed

theorem closure_date_filter_witness:
  "csv_first_row plain_lib (encode_ascii_ignore ''01,073,0023,33.5,-86.8,NAD83,,,,,1975-06-01'')
     = Inr [''01'', ''073'', ''0023'', ''33.5'', ''-86.8'', ''NAD83'', [], [], [], [], ''1975-06-01''] \<and>
   dateutil_parse plain_lib ''1975-06-01'' = Inr (Naive \<lparr>year = 1975, month = 6, day = 1, hour = 0, minute = 0, second = 0, microsecond = 0\<rparr>) \<and>
   dateutil_parse plain_lib ''1985-06-01'' = Inr (Naive \<lparr>year = 1985, month = 6, day = 1, hour = 0, minute = 0, second = 0, microsecond = 0\<rparr>) \<and>
   dateutil_parse plain_lib ''1980-01-01'' = Inr (Naive january_1_1980) \<and>
   stamp_less \<lparr>year = 1975, month = 6, day = 1, hour = 0, minute = 0, second = 0, microsecond = 0\<rparr> january_1_1980 \<and>
   \<not> stamp_less \<lparr>year = 1985, month = 6, day = 1, hour = 0, minute = 0, second = 0, microsecond = 0\<rparr> january_1_1980 \<and>
   parse_station_record plain_lib ''01,073,0023,33.5,-86.8,NAD83,,,,,1975-06-01'' = Inr None \<and>
   parse_station_record plain_lib ''01,073,0023,33.5,-86.8,NAD83,,,,,1985-06-01''
     = Inr (Some (''01|073|0023'', 33.5, - 86.8))"
proof -
  note lib = plain_lib_fields
  have before: "stamp_less \<lparr>year = 1975, month = 6, day = 1, hour = 0, minute = 0, second = 0, microsecond = 0\<rparr> january_1_1980"
    and after: "\<not> stamp_less \<lparr>year = 1985, month = 6, day = 1, hour = 0, minute = 0, second = 0, microsecond = 0\<rparr> january_1_1980"
    by (simp_all add: stamp_less_def january_1_1980_def)
  have "parse_station_record plain_lib ''01,073,0023,33.5,-86.8,NAD83,,,,,1975-06-01'' = Inr None"
    using closure_date_filter[OF plain_rows(4), of "33.5" "- 86.8" "\<lparr>year = 1975, month = 6, day = 1, hour = 0, minute = 0, second = 0, microsecond = 0\<rparr>"] before
    by (simp add: lib plain_float_examples plain_date_examples)
  moreover have "parse_station_record plain_lib ''01,073,0023,33.5,-86.8,NAD83,,,,,1985-06-01''
     = Inr (Some (''01|073|0023'', 33.5, - 86.8))"
    using closure_date_filter[OF plain_rows(5), of "33.5" "- 86.8" "\<lparr>year = 1985, month = 6, day = 1, hour = 0, minute = 0, second = 0, microsecond = 0\<rparr>"] after
    by (simp add: lib plain_float_examples plain_date_examples)
  ultimately show ?thesis
    using before after plain_rows(4) by (simp add: lib plain_date_examples)
qed

text \<open>
  Claim C2, as stated, fails: a record with too few fields raises IndexError when the
  missing field is read, and a closure date that dateutil cannot parse raises ValueError.
\<close>

theorem parse_station_record_raises_counterexample:
  "parse_station_record plain_lib ''01,073'' = Inl IndexError \<and>
   parse_station_record plain_lib ''01,073,0023,33.5,-86.8,WGS84,,,,,unknown'' = Inl ValueError"
  by (simp add: parse_station_record_def plain_lib_def plain_csv_first_row_def
      encode_ascii_ignore_def on_ok_def item_def valid_nonzero_float_def
      plain_float_examples plain_date_examples)

text \<open>
  Claim C2, amended: the function returns a station or a rejection, and raises nothing,
  exactly on the records of \<open>reads_succeed\<close>: those in which every field read before the
  return is present and a non-empty closure date that is reached is parsed by dateutil to a
  datetime comparable with \<^verbatim>\<open>parser.parse('1980-01-01')\<close>. A record that has fields 4 and 5,
  one of which does not parse as a number, is signalled as a rejection.
\<close>

theorem parse_station_record_returns:
  assumes "csv_first_row lib (encode_ascii_ignore station_record) = Inr record"
  shows "((\<exists>result. parse_station_record lib station_record = Inr result) \<longleftrightarrow>
            reads_succeed lib record) \<and>
         (5 \<le> length record \<and>
          (float_of lib (record ! 3) = None \<or> float_of lib (record ! 4) = None) \<longrightarrow>
            parse_station_record lib station_record = Inr None)"
proof
  show "(\<exists>result. parse_station_record lib station_record = Inr result) \<longleftrightarrow>
          reads_succeed lib record"
    using assms
    by (auto simp: parse_station_record_def reads_succeed_def closure_comparable_def on_ok_def
        item_def Let_def dest: valid_nonzero_float_nonzero
        split: sum.splits option.splits if_splits)
next
  show "5 \<le> length record \<and>
          (float_of lib (record ! 3) = None \<or> float_of lib (record ! 4) = None) \<longrightarrow>
            parse_station_record lib station_record = Inr None"
  proof
    assume h: "5 \<le> length record \<and>
          (float_of lib (record ! 3) = None \<or> float_of lib (record ! 4) = None)"
    then have items: "item record 0 = Inr (record ! 0)" "item record 1 = Inr (record ! 1)"
      "item record 2 = Inr (record ! 2)" "item record 3 = Inr (record ! 3)"
      "item record 4 = Inr (record ! 4)"
      by (auto simp: item_def)
    from h have "valid_nonzero_float lib (record ! 3) = None \<or>
        valid_nonzero_float lib (record ! 4) = None"
      by (auto simp: valid_nonzero_float_def)
    then show "parse_station_record lib station_record = Inr None"
      using assms items
      by (auto simp: parse_station_record_def on_ok_def Let_def split: option.splits)
  qed
qed

theorem parse_station_record_returns_witness:
  "csv_first_row plain_lib (encode_ascii_ignore ''01,073,0023,abc,-86.8,WGS84,,,,,'')
     = Inr [''01'', ''073'', ''0023'', ''abc'', ''-86.8'', ''WGS84'', [], [], [], [], []] \<and>
   5 \<le> length [''01'', ''073'', ''0023'', ''abc'', ''-86.8'', ''WGS84'', [], [], [], [], []] \<and>
   float_of plain_lib
     ([''01'', ''073'', ''0023'', ''abc'', ''-86.8'', ''WGS84'', [], [], [], [], []] ! 3) = None \<and>
   parse_station_record plain_lib ''01,073,0023,abc,-86.8,WGS84,,,,,'' = Inr None \<and>
   reads_succeed plain_lib
     [''01'', ''073'', ''0023'', ''abc'', ''-86.8'', ''WGS84'', [], [], [], [], []]"
proof -
  let ?row = "[''01'', ''073'', ''0023'', ''abc'', ''-86.8'', ''WGS84'', [], [], [], [], []]"
  note both = parse_station_record_returns[OF plain_rows(6)]
  have f: "float_of plain_lib (?row ! 3) = None"
    by (simp add: plain_lib_fields plain_float_examples)
  from both f have rejected:
    "parse_station_record plain_lib ''01,073,0023,abc,-86.8,WGS84,,,,,'' = Inr None"
    by simp
  with both have "reads_succeed plain_lib ?row" by blast
  with rejected f plain_rows(6) show ?thesis by simp
qed

end
